theory Spec2Isabelle
  imports Complex_Main
begin

section \<open>Values and errors\<close>

text \<open>
  The strategy works on pandas columns of dtype float64. A float64 is a finite number,
  one of the two infinities, or NaN. Comparisons of floats are exact, so they are modelled
  exactly. A single operation on finite numbers is modelled by the operation on the reals
  (its rounding and the sign of zero are not part of the model), and the special values
  follow IEEE 754: a comparison with NaN is false, a non-zero number divided by zero is
  an infinity, zero divided by zero is NaN, and nothing raises. The mean of a rolling
  window, where rounding decides a claim, is not computed in the reals: it is a
  parameter of the indicator engine (see there).
\<close>

datatype float64 = NaN | NegInf | Fin real | PosInf

datatype py_error = IndexError | ValueError | HTTPError

fun flt :: "float64 \<Rightarrow> float64 \<Rightarrow> bool" where
  "flt (Fin x) (Fin y) = (x < y)"
| "flt NegInf (Fin y) = True"
| "flt NegInf PosInf = True"
| "flt (Fin x) PosInf = True"
| "flt _ _ = False"

fun fle :: "float64 \<Rightarrow> float64 \<Rightarrow> bool" where
  "fle (Fin x) (Fin y) = (x \<le> y)"
| "fle NaN _ = False"
| "fle _ NaN = False"
| "fle NegInf _ = True"
| "fle _ PosInf = True"
| "fle _ _ = False"

definition fgt :: "float64 \<Rightarrow> float64 \<Rightarrow> bool" where
  "fgt a b = flt b a"

definition fge :: "float64 \<Rightarrow> float64 \<Rightarrow> bool" where
  "fge a b = fle b a"

text \<open>\<open>pd.isna\<close> on a float.\<close>

definition isna :: "float64 \<Rightarrow> bool" where
  "isna v = (v = NaN)"

fun fneg :: "float64 \<Rightarrow> float64" where
  "fneg NaN = NaN"
| "fneg NegInf = PosInf"
| "fneg PosInf = NegInf"
| "fneg (Fin x) = Fin (- x)"

fun fadd :: "float64 \<Rightarrow> float64 \<Rightarrow> float64" where
  "fadd (Fin x) (Fin y) = Fin (x + y)"
| "fadd NaN _ = NaN"
| "fadd _ NaN = NaN"
| "fadd PosInf NegInf = NaN"
| "fadd NegInf PosInf = NaN"
| "fadd PosInf _ = PosInf"
| "fadd _ PosInf = PosInf"
| "fadd NegInf _ = NegInf"
| "fadd _ NegInf = NegInf"

definition fsub :: "float64 \<Rightarrow> float64 \<Rightarrow> float64" where
  "fsub a b = fadd a (fneg b)"

text \<open>
  Division never raises: \<open>x / 0\<close> is an infinity of the sign of \<open>x\<close>, \<open>0 / 0\<close> and
  \<open>inf / inf\<close> are NaN, a finite number over an infinity is 0.
\<close>

fun fdiv :: "float64 \<Rightarrow> float64 \<Rightarrow> float64" where
  "fdiv (Fin x) (Fin y) =
     (if y \<noteq> 0 then Fin (x / y)
      else if 0 < x then PosInf else if x < 0 then NegInf else NaN)"
| "fdiv NaN _ = NaN"
| "fdiv _ NaN = NaN"
| "fdiv (Fin x) _ = Fin 0"
| "fdiv PosInf (Fin y) = (if 0 \<le> y then PosInf else NegInf)"
| "fdiv NegInf (Fin y) = (if 0 \<le> y then NegInf else PosInf)"
| "fdiv _ _ = NaN"

fun fmul :: "float64 \<Rightarrow> float64 \<Rightarrow> float64" where
  "fmul (Fin x) (Fin y) = Fin (x * y)"
| "fmul NaN _ = NaN"
| "fmul _ NaN = NaN"
| "fmul (Fin x) PosInf = (if 0 < x then PosInf else if x < 0 then NegInf else NaN)"
| "fmul (Fin x) NegInf = (if 0 < x then NegInf else if x < 0 then PosInf else NaN)"
| "fmul PosInf (Fin y) = (if 0 < y then PosInf else if y < 0 then NegInf else NaN)"
| "fmul NegInf (Fin y) = (if 0 < y then NegInf else if y < 0 then PosInf else NaN)"
| "fmul PosInf PosInf = PosInf"
| "fmul NegInf NegInf = PosInf"
| "fmul _ _ = NegInf"

fun fabs :: "float64 \<Rightarrow> float64" where
  "fabs NaN = NaN"
| "fabs NegInf = PosInf"
| "fabs PosInf = PosInf"
| "fabs (Fin x) = Fin \<bar>x\<bar>"

fun is_finite :: "float64 \<Rightarrow> bool" where
  "is_finite (Fin x) = True"
| "is_finite _ = False"

section \<open>DataFrames and the strategy object\<close>

text \<open>
  A DataFrame is the list of its rows. Every frame has a \<open>close\<close> column;
  \<open>calculate_indicators\<close> adds \<open>sma_fast\<close>, \<open>sma_slow\<close> and \<open>rsi\<close> to the primary
  frame and \<open>sma_trend\<close> to the secondary one.
\<close>

record candle =
  close :: float64

record primary_row = candle +
  sma_fast :: float64
  sma_slow :: float64
  rsi :: float64

record secondary_row = candle +
  sma_trend :: float64

datatype signal = BUY | SELL | HOLD

text \<open>
  The fields of \<open>MultiTimeframeStrategy\<close>. \<open>position\<close> is \<open>None\<close> (flat) or
  \<open>'LONG'\<close>; \<open>entry_price\<close> is \<open>None\<close> or a price.
\<close>

record strategy =
  fast_sma :: int
  slow_sma :: int
  trend_sma :: int
  rsi_period :: int
  rsi_overbought :: float64
  rsi_oversold :: float64
  position :: "string option"
  entry_price :: "float64 option"

text \<open>
  \<open>df.iloc[i]\<close>: a negative index counts from the end, an index outside the frame
  raises IndexError.
\<close>

definition iloc :: "'a list \<Rightarrow> int \<Rightarrow> py_error + 'a" where
  "iloc df i =
     (if 0 \<le> i \<and> i < int (length df) then Inr (df ! nat i)
      else if i < 0 \<and> - int (length df) \<le> i then Inr (df ! nat (int (length df) + i))
      else Inl IndexError)"

section \<open>The signal state machine\<close>

text \<open>
  Each method of the class is a function of the object and the arguments that returns
  the method's result together with the object after the call, so that what a call
  writes to \<open>self\<close> is part of the model. A raised exception is \<open>Inl\<close>.
\<close>

definition get_trend_direction ::
  "strategy \<Rightarrow> secondary_row list \<Rightarrow> int \<Rightarrow> string option \<times> strategy" where
  "get_trend_direction self df_secondary index =
     (if index < 0 \<or> index \<ge> int (length df_secondary) then (None, self)
      else
        let current_price = close (df_secondary ! nat index);
            trend_sma_v = sma_trend (df_secondary ! nat index)
        in if isna trend_sma_v then (None, self)
           else if fgt current_price trend_sma_v then (Some ''UP'', self)
           else if flt current_price trend_sma_v then (Some ''DOWN'', self)
           else (None, self))"

definition check_sma_crossover ::
  "strategy \<Rightarrow> primary_row list \<Rightarrow> int \<Rightarrow> (py_error + string option) \<times> strategy" where
  "check_sma_crossover self df_primary current_idx =
     (if current_idx < 1 then (Inr None, self)
      else case iloc df_primary current_idx of
        Inl e \<Rightarrow> (Inl e, self)
      | Inr cur \<Rightarrow>
         (case iloc df_primary (current_idx - 1) of
            Inl e \<Rightarrow> (Inl e, self)
          | Inr prev \<Rightarrow>
             let fast_current = sma_fast cur; slow_current = sma_slow cur;
                 fast_prev = sma_fast prev; slow_prev = sma_slow prev
             in if isna fast_current \<or> isna slow_current then (Inr None, self)
                else if fle fast_prev slow_prev \<and> fgt fast_current slow_current
                  then (Inr (Some ''BULLISH''), self)
                else if fge fast_prev slow_prev \<and> flt fast_current slow_current
                  then (Inr (Some ''BEARISH''), self)
                else (Inr None, self)))"

definition generate_signal ::
  "strategy \<Rightarrow> primary_row list \<Rightarrow> secondary_row list \<Rightarrow> int \<Rightarrow> int
     \<Rightarrow> (py_error + signal) \<times> strategy" where
  "generate_signal self df_primary df_secondary primary_idx secondary_idx =
     (if primary_idx < slow_sma self \<or> secondary_idx < trend_sma self then (Inr HOLD, self)
      else case iloc df_primary primary_idx of
        Inl e \<Rightarrow> (Inl e, self)
      | Inr row \<Rightarrow>
         (let current_price = close row; rsi_v = rsi row
          in case check_sma_crossover self df_primary primary_idx of
            (Inl e, self1) \<Rightarrow> (Inl e, self1)
          | (Inr crossover, self1) \<Rightarrow>
             (case get_trend_direction self1 df_secondary secondary_idx of
                (trend, self2) \<Rightarrow>
                  if position self2 = None then
                    (if crossover = Some ''BULLISH'' \<or>
                        (trend = Some ''UP'' \<and> flt rsi_v (rsi_overbought self2))
                     then (Inr BUY, self2) else (Inr HOLD, self2))
                  else if position self2 = Some ''LONG'' then
                    (if crossover = Some ''BEARISH'' \<or> fgt rsi_v (rsi_overbought self2)
                     then (Inr SELL, self2) else (Inr HOLD, self2))
                  else (Inr HOLD, self2))))"

definition update_position :: "strategy \<Rightarrow> signal \<Rightarrow> float64 \<Rightarrow> strategy" where
  "update_position self sig price =
     (if sig = BUY then self\<lparr>position := Some ''LONG'', entry_price := Some price\<rparr>
      else if sig = SELL then self\<lparr>position := None, entry_price := None\<rparr>
      else self)"

definition reset :: "strategy \<Rightarrow> strategy" where
  "reset self = self\<lparr>position := None, entry_price := None\<rparr>"

section \<open>The indicator engine\<close>

text \<open>\<open>Series.diff()\<close>: the first element has no predecessor and is NaN.\<close>

definition diff :: "float64 list \<Rightarrow> float64 list" where
  "diff xs = map (\<lambda>k. if k = 0 then NaN else fsub (xs ! k) (xs ! (k - 1))) [0..<length xs]"

text \<open>\<open>s.where(cond, other)\<close> keeps the element where the condition holds.\<close>

definition series_where :: "float64 list \<Rightarrow> bool list \<Rightarrow> float64 \<Rightarrow> float64 list" where
  "series_where xs cond other = map (\<lambda>(x, c). if c then x else other) (zip xs cond)"

text \<open>
  \<open>s.rolling(window=w).mean()\<close> with the default \<open>min_periods = w\<close>: a negative
  window raises ValueError; the value at index \<open>k\<close> is NaN unless there are \<open>w\<close> elements
  ending at \<open>k\<close> and all of them are numbers (pandas turns infinities into NaN before
  it aggregates). Where it is not NaN it is the mean that pandas computes in float64
  arithmetic. That computation is the parameter \<open>mean64\<close>: \<open>mean64 w xs\<close> is the mean
  of the last \<open>w\<close> elements of \<open>xs\<close> as pandas gets it when it has gone through \<open>xs\<close>
  from the start; it may depend on all of \<open>xs\<close> (the running sum carries its rounding
  errors along) and on nothing that comes later.
\<close>

definition rolling_mean ::
  "(nat \<Rightarrow> float64 list \<Rightarrow> float64) \<Rightarrow> int \<Rightarrow> float64 list \<Rightarrow> py_error + float64 list" where
  "rolling_mean mean64 window xs =
     (if window < 0 then Inl ValueError
      else Inr (map (\<lambda>k. if 1 \<le> window \<and> nat window \<le> k + 1 \<and>
                              list_all is_finite
                                (take (nat window) (drop (k + 1 - nat window) xs))
                           then mean64 (nat window) (take (k + 1) xs)
                           else NaN)
                    [0..<length xs]))"

text \<open>
  The two averages of the RSI, from the series of deltas:
  \<open>delta.where(delta > 0, 0).rolling(window).mean()\<close> and
  \<open>(-delta.where(delta < 0, 0)).rolling(window).mean()\<close>.
\<close>

definition gain_series ::
  "(nat \<Rightarrow> float64 list \<Rightarrow> float64) \<Rightarrow> int \<Rightarrow> float64 list \<Rightarrow> py_error + float64 list" where
  "gain_series mean64 window delta =
     rolling_mean mean64 window
       (series_where delta (map (\<lambda>d. fgt d (Fin 0)) delta) (Fin 0))"

definition loss_series ::
  "(nat \<Rightarrow> float64 list \<Rightarrow> float64) \<Rightarrow> int \<Rightarrow> float64 list \<Rightarrow> py_error + float64 list" where
  "loss_series mean64 window delta =
     rolling_mean mean64 window
       (map fneg (series_where delta (map (\<lambda>d. flt d (Fin 0)) delta) (Fin 0)))"

definition calculate_indicators ::
  "(nat \<Rightarrow> float64 list \<Rightarrow> float64) \<Rightarrow> strategy \<Rightarrow> candle list \<Rightarrow> candle list
     \<Rightarrow> (py_error + primary_row list \<times> secondary_row list) \<times> strategy" where
  "calculate_indicators mean64 self df_primary df_secondary =
     (let closes = map close df_primary in
      case rolling_mean mean64 (fast_sma self) closes of
        Inl e \<Rightarrow> (Inl e, self)
      | Inr col_fast \<Rightarrow>
     (case rolling_mean mean64 (slow_sma self) closes of
        Inl e \<Rightarrow> (Inl e, self)
      | Inr col_slow \<Rightarrow>
     (let delta = diff closes in
      case gain_series mean64 (rsi_period self) delta of
        Inl e \<Rightarrow> (Inl e, self)
      | Inr gain \<Rightarrow>
     (case loss_series mean64 (rsi_period self) delta of
        Inl e \<Rightarrow> (Inl e, self)
      | Inr loss \<Rightarrow>
     (let rs = map (\<lambda>(g, l). fdiv g l) (zip gain loss);
          col_rsi = map (\<lambda>r. fsub (Fin 100) (fdiv (Fin 100) (fadd (Fin 1) r))) rs;
          closes2 = map close df_secondary
      in case rolling_mean mean64 (trend_sma self) closes2 of
        Inl e \<Rightarrow> (Inl e, self)
      | Inr col_trend \<Rightarrow>
          (Inr (map (\<lambda>(c, f, s, r). \<lparr>close = c, sma_fast = f, sma_slow = s, rsi = r\<rparr>)
                  (zip closes (zip col_fast (zip col_slow col_rsi))),
                map (\<lambda>(c, t). \<lparr>close = c, sma_trend = t\<rparr>) (zip closes2 col_trend)),
           self))))))"

text \<open>The RSI that \<open>calculate_indicators\<close> stores at a bar of the primary frame.\<close>

definition rsi_at ::
  "(nat \<Rightarrow> float64 list \<Rightarrow> float64) \<Rightarrow> strategy \<Rightarrow> candle list \<Rightarrow> candle list \<Rightarrow> int
     \<Rightarrow> py_error + float64" where
  "rsi_at mean64 self df_primary df_secondary i =
     (case fst (calculate_indicators mean64 self df_primary df_secondary) of
        Inl e \<Rightarrow> Inl e
      | Inr (dp, ds) \<Rightarrow> map_sum id rsi (iloc dp i))"

text \<open>
  What both drivers do at a bar: annotate the two frames, then ask for the signal at the
  bar's indices.
\<close>

definition signal_at ::
  "(nat \<Rightarrow> float64 list \<Rightarrow> float64) \<Rightarrow> strategy \<Rightarrow> candle list \<Rightarrow> candle list \<Rightarrow> int \<Rightarrow> int
     \<Rightarrow> py_error + signal" where
  "signal_at mean64 self df_primary df_secondary primary_idx secondary_idx =
     (case calculate_indicators mean64 self df_primary df_secondary of
        (Inl e, self1) \<Rightarrow> Inl e
      | (Inr (dp, ds), self1) \<Rightarrow> fst (generate_signal self1 dp ds primary_idx secondary_idx))"

subsection \<open>The mean in float64 arithmetic\<close>

text \<open>
  Rounding of a real number to float64 (binary64, to nearest, ties to even): 53
  significant bits, exponents from \<open>-1022\<close> to \<open>1023\<close>, below that the subnormal numbers,
  which are the multiples of \<open>2 powi (-1074)\<close>, and infinity from \<open>2 ^ 1024\<close> on.
  \<open>binade a\<close> is the exponent \<open>e\<close> with \<open>2 powi e \<le> a < 2 powi (e + 1)\<close>, kept within
  that range; it is found by doubling or halving a power of two, at most as often as
  there are exponents.
\<close>

definition round_half_even :: "real \<Rightarrow> int" where
  "round_half_even y =
     (let n = \<lfloor>y\<rfloor>; d = y - of_int n
      in if d < 1 / 2 then n else if 1 / 2 < d then n + 1 else if even n then n else n + 1)"

fun scan_up :: "nat \<Rightarrow> int \<Rightarrow> real \<Rightarrow> real \<Rightarrow> int" where
  "scan_up 0 e p a = e"
| "scan_up (Suc n) e p a = (if 2 * p \<le> a then scan_up n (e + 1) (2 * p) a else e)"

fun scan_down :: "nat \<Rightarrow> int \<Rightarrow> real \<Rightarrow> real \<Rightarrow> int" where
  "scan_down 0 e p a = e"
| "scan_down (Suc n) e p a = (if p \<le> a then e else scan_down n (e - 1) (p / 2) a)"

definition binade :: "real \<Rightarrow> int" where
  "binade a = (if 1 \<le> a then scan_up 1023 0 1 a else scan_down 1021 (- 1) (1 / 2) a)"

definition round64 :: "real \<Rightarrow> float64" where
  "round64 x =
     (if x = 0 then Fin 0
      else let e = binade \<bar>x\<bar>;
               r = of_int (round_half_even (x / 2 powi (e - 52))) * 2 powi (e - 52)
           in if e < 1023 then Fin r
              else if 2 ^ 1024 \<le> \<bar>r\<bar> then (if 0 < x then PosInf else NegInf)
              else Fin r)"

text \<open>The result of an operation, rounded: what a float64 operation returns.\<close>

definition fl :: "float64 \<Rightarrow> float64" where
  "fl v = (case v of Fin x \<Rightarrow> round64 x | _ \<Rightarrow> v)"

text \<open>
  The mean of the last \<open>w\<close> elements as float64 arithmetic gives it: the elements are
  added up one after the other and the sum is divided by their number, every operation
  rounded. pandas keeps a running sum with a correction term and adds and removes
  elements as the window moves; where those additions and subtractions are exact, as
  they are in the examples of this theory, it has the same sum to divide.
\<close>

definition float_mean :: "nat \<Rightarrow> float64 list \<Rightarrow> float64" where
  "float_mean w xs =
     fl (fdiv (foldl (\<lambda>s v. fl (fadd s v)) (Fin 0) (drop (length xs - w) xs)) (Fin (real w)))"

section \<open>A trading session\<close>

text \<open>
  One evaluation of a driver: the two annotated frames, the two indices and the price at
  which a signal is executed. A session evaluates the strategy at each bar in turn and
  applies every signal it gets with \<open>update_position\<close> before the next evaluation;
  an evaluation that raises is logged and the session goes on with the next bar, as the
  live loop does. The session returns, for every signal, the position it was emitted in.
\<close>

record bar =
  bar_primary :: "primary_row list"
  bar_secondary :: "secondary_row list"
  bar_primary_idx :: int
  bar_secondary_idx :: int
  bar_price :: float64

fun run_session :: "strategy \<Rightarrow> bar list \<Rightarrow> (string option \<times> signal) list" where
  "run_session self [] = []"
| "run_session self (b # bs) =
     (case generate_signal self (bar_primary b) (bar_secondary b)
             (bar_primary_idx b) (bar_secondary_idx b) of
        (Inl e, self1) \<Rightarrow> run_session self1 bs
      | (Inr sig, self1) \<Rightarrow>
          (position self1, sig) # run_session (update_position self1 sig (bar_price b)) bs)"

text \<open>
  A signal sequence is well ordered from a position (\<open>True\<close>: long) when no BUY comes
  while long and no SELL while flat.
\<close>

fun alternates :: "bool \<Rightarrow> signal list \<Rightarrow> bool" where
  "alternates long [] = True"
| "alternates long (BUY # sigs) = (\<not> long \<and> alternates True sigs)"
| "alternates long (SELL # sigs) = (long \<and> alternates False sigs)"
| "alternates long (HOLD # sigs) = alternates long sigs"

section \<open>The trade validator\<close>

text \<open>
  A row of a trade ledger: the columns \<open>compare_trades\<close> reads. Timestamps are
  nanoseconds since the epoch; \<open>entry_price_col\<close> is \<open>None\<close> when the ledger has no
  \<open>entry_price\<close> column.
\<close>

record trade =
  timestamp :: int
  side :: string
  entry_price_col :: "float64 option"

record trade_validator =
  candle_window :: int
  price_tolerance :: float64

definition TradeValidator :: "int \<Rightarrow> float64 \<Rightarrow> trade_validator" where
  "TradeValidator candle_seconds price_tol =
     \<lparr>candle_window = candle_seconds * 1000000000, price_tolerance = price_tol\<rparr>"

datatype detail =
    MATCHED string int int float64 "float64 option" "float64 option" "float64 option"
  | UNMATCHED_BACKTEST string int "float64 option"

record results =
  backtest_trades :: int
  live_trades :: int
  matched_trades :: int
  unmatched_backtest :: int
  unmatched_live :: int
  details :: "detail list"

text \<open>\<open>df.iterrows()\<close> of a frame with the default index: label and row.\<close>

definition iterrows :: "'a list \<Rightarrow> (nat \<times> 'a) list" where
  "iterrows df = zip [0..<length df] df"

text \<open>Truth value of a float: everything but zero.\<close>

definition truthy :: "float64 \<Rightarrow> bool" where
  "truthy v = (v \<noteq> Fin 0)"

definition match_detail :: "trade \<Rightarrow> trade \<Rightarrow> detail" where
  "match_detail bt lv =
     (let bt_price = entry_price_col bt;
          time_diff = \<bar>timestamp lv - timestamp bt\<bar>;
          price_diff_pct =
            (case (bt_price, entry_price_col lv) of
               (Some b, Some l) \<Rightarrow>
                 if truthy b then Some (fdiv (fabs (fsub b l)) b) else None
             | _ \<Rightarrow> None)
      in MATCHED (side bt) (timestamp bt) (timestamp lv)
           (Fin (real_of_int time_diff / 1000000000)) bt_price (entry_price_col lv)
           (map_option (\<lambda>p. fmul p (Fin 100)) price_diff_pct))"

text \<open>
  The inner loop over the live rows for one backtest row: the first live row that is
  unused, of the same side and within the window is taken. The result is the state
  after the loop and the flag \<open>found\<close>.
\<close>

fun scan_live ::
  "trade_validator \<Rightarrow> trade \<Rightarrow> (nat \<times> trade) list \<Rightarrow> results \<times> nat set
     \<Rightarrow> (results \<times> nat set) \<times> bool" where
  "scan_live self bt [] (res, used_live) = ((res, used_live), False)"
| "scan_live self bt ((lv_idx, lv) # rest) (res, used_live) =
     (if lv_idx \<in> used_live then scan_live self bt rest (res, used_live)
      else if side bt \<noteq> side lv then scan_live self bt rest (res, used_live)
      else if \<bar>timestamp lv - timestamp bt\<bar> > candle_window self
        then scan_live self bt rest (res, used_live)
      else ((res\<lparr>matched_trades := matched_trades res + 1,
                   details := details res @ [match_detail bt lv]\<rparr>,
             insert lv_idx used_live), True))"

fun match_backtest ::
  "trade_validator \<Rightarrow> (nat \<times> trade) list \<Rightarrow> trade list \<Rightarrow> results \<times> nat set
     \<Rightarrow> results \<times> nat set" where
  "match_backtest self lvs [] st = st"
| "match_backtest self lvs (bt # bts) st =
     (case scan_live self bt lvs st of
        ((res, used_live), found) \<Rightarrow>
          match_backtest self lvs bts
            (if found then (res, used_live)
             else (res\<lparr>unmatched_backtest := unmatched_backtest res + 1,
                         details := details res @
                           [UNMATCHED_BACKTEST (side bt) (timestamp bt) (entry_price_col bt)]\<rparr>,
                   used_live)))"

text \<open>The state of \<open>compare_trades\<close> after its loop: the results and \<open>used_live\<close>.\<close>

definition compare_trades_loop ::
  "trade_validator \<Rightarrow> trade list \<Rightarrow> trade list \<Rightarrow> results \<times> nat set" where
  "compare_trades_loop self df_bt df_lv =
     match_backtest self (iterrows df_lv) df_bt
       (\<lparr>backtest_trades = int (length df_bt), live_trades = int (length df_lv),
         matched_trades = 0, unmatched_backtest = 0, unmatched_live = 0, details = []\<rparr>, {})"

definition compare_trades :: "trade_validator \<Rightarrow> trade list \<Rightarrow> trade list \<Rightarrow> results" where
  "compare_trades self df_bt df_lv =
     (case compare_trades_loop self df_bt df_lv of
        (res, used_live) \<Rightarrow>
          res\<lparr>unmatched_live := int (length df_lv) - int (card used_live)\<rparr>)"

section \<open>Configuration: timeframes and orders\<close>

text \<open>
  Python's \<open>int(s)\<close> on an ASCII string: surrounding whitespace is dropped, a sign may
  lead, and the digits may be grouped by single underscores. Anything else raises
  ValueError (\<open>None\<close> here). The interpreter's limit on the number of digits is not
  modelled.
\<close>

definition is_space :: "char \<Rightarrow> bool" where
  "is_space c = (c \<in> set [CHR 0x20, CHR 0x09, CHR 0x0A, CHR 0x0B, CHR 0x0C, CHR 0x0D,
                            CHR 0x1C, CHR 0x1D, CHR 0x1E, CHR 0x1F])"

definition is_digit :: "char \<Rightarrow> bool" where
  "is_digit c = (c \<in> set ''0123456789'')"

definition digit_val :: "char \<Rightarrow> int" where
  "digit_val c = int (of_char c) - 48"

fun digits :: "int \<Rightarrow> string \<Rightarrow> int option" where
  "digits acc [] = Some acc"
| "digits acc [c] = (if is_digit c then Some (10 * acc + digit_val c) else None)"
| "digits acc (c # d # ds) =
     (if is_digit c then digits (10 * acc + digit_val c) (d # ds)
      else if c = CHR ''_'' \<and> is_digit d then digits (10 * acc + digit_val d) ds
      else None)"

definition strip :: "string \<Rightarrow> string" where
  "strip s = rev (dropWhile is_space (rev (dropWhile is_space s)))"

definition py_int :: "string \<Rightarrow> int option" where
  "py_int s =
     (case strip s of
        [] \<Rightarrow> None
      | c # cs \<Rightarrow>
          let neg = (c = CHR ''-'');
              body = (if c = CHR ''-'' \<or> c = CHR ''+'' then cs else c # cs)
          in case body of
               [] \<Rightarrow> None
             | d # ds \<Rightarrow>
                 if is_digit d
                 then map_option (\<lambda>v. if neg then - v else v) (digits (digit_val d) ds)
                 else None)"

definition endswith :: "string \<Rightarrow> string \<Rightarrow> bool" where
  "endswith s suf = (length suf \<le> length s \<and> drop (length s - length suf) s = suf)"

text \<open>\<open>LiveTradingEngine._parse_timeframe_to_seconds\<close>; \<open>timeframe[:-1]\<close> is \<open>butlast\<close>.\<close>

definition parse_timeframe_to_seconds :: "string \<Rightarrow> py_error + int" where
  "parse_timeframe_to_seconds timeframe =
     (if endswith timeframe ''m'' then
        (case py_int (butlast timeframe) of
           None \<Rightarrow> Inl ValueError | Some minutes \<Rightarrow> Inr (minutes * 60))
      else if endswith timeframe ''h'' then
        (case py_int (butlast timeframe) of
           None \<Rightarrow> Inl ValueError | Some hours \<Rightarrow> Inr (hours * 60 * 60))
      else if endswith timeframe ''d'' then
        (case py_int (butlast timeframe) of
           None \<Rightarrow> Inl ValueError | Some days \<Rightarrow> Inr (days * 24 * 60 * 60))
      else Inr 60)"

text \<open>
  The fields the constructor of \<open>LiveTradingEngine\<close> computes from the configuration
  (the client, the strategy and the data handler are stored as they are given). The
  argument \<open>check_interval\<close> of the constructor is ignored by the source.
\<close>

record live_engine =
  symbol :: string
  primary_tf :: string
  secondary_tf :: string
  quantity :: float64
  check_interval :: int
  is_running :: bool

definition LiveTradingEngine ::
  "string \<Rightarrow> string \<Rightarrow> string \<Rightarrow> float64 \<Rightarrow> py_error + live_engine" where
  "LiveTradingEngine symb primary_timeframe secondary_timeframe trade_quantity =
     (case parse_timeframe_to_seconds primary_timeframe of
        Inl e \<Rightarrow> Inl e
      | Inr secs \<Rightarrow>
          Inr \<lparr>symbol = symb, primary_tf = primary_timeframe,
               secondary_tf = secondary_timeframe, quantity = trade_quantity,
               check_interval = secs, is_running = False\<rparr>)"

text \<open>
  \<open>BinanceClient.create_order\<close>. Signing the parameters, posting them and decoding the
  answer belong to the exchange; they are the parameter \<open>send\<close>. \<open>now\<close> is the clock in
  milliseconds.
\<close>

record order_params =
  param_symbol :: string
  param_side :: string
  param_type :: string
  param_quantity :: float64
  param_timestamp :: int
  param_price :: "float64 option"
  param_timeInForce :: "string option"

definition create_order ::
  "(order_params \<Rightarrow> py_error + 'r) \<Rightarrow> int \<Rightarrow> string \<Rightarrow> string \<Rightarrow> string \<Rightarrow> float64
     \<Rightarrow> float64 option \<Rightarrow> string \<Rightarrow> py_error + 'r" where
  "create_order send now symb order_side order_type qty price time_in_force =
     (let params = \<lparr>param_symbol = symb, param_side = order_side, param_type = order_type,
                     param_quantity = qty, param_timestamp = now,
                     param_price = None, param_timeInForce = None\<rparr>
      in if order_type = ''LIMIT'' then
           (if price = None then Inl ValueError
            else send (params\<lparr>param_price := price, param_timeInForce := Some time_in_force\<rparr>))
         else send params)"

section \<open>Example data\<close>

definition demo_strategy :: strategy where
  "demo_strategy = \<lparr>fast_sma = 2, slow_sma = 3, trend_sma = 2, rsi_period = 2,
     rsi_overbought = Fin 70, rsi_oversold = Fin 30, position = None, entry_price = None\<rparr>"

definition demo_candles :: "candle list" where
  "demo_candles = [\<lparr>close = Fin 10\<rparr>, \<lparr>close = Fin 9\<rparr>, \<lparr>close = Fin 8\<rparr>,
     \<lparr>close = Fin 12\<rparr>, \<lparr>close = Fin 13\<rparr>]"

definition demo_candles2 :: "candle list" where
  "demo_candles2 = [\<lparr>close = Fin 10\<rparr>, \<lparr>close = Fin 8\<rparr>, \<lparr>close = Fin 13\<rparr>]"

text \<open>
  The smallest positive float64, and a price series that stays at 0 and then rises by
  that much.
\<close>

definition min_subnormal :: real where
  "min_subnormal = 1 / 2 ^ 1074"

definition tiny_candles :: "candle list" where
  "tiny_candles = [\<lparr>close = Fin 0\<rparr>, \<lparr>close = Fin 0\<rparr>, \<lparr>close = Fin min_subnormal\<rparr>]"

text \<open>The two frames above with their indicators, computed by hand.\<close>

definition demo_primary :: "primary_row list" where
  "demo_primary =
    [\<lparr>close = Fin 10, sma_fast = NaN, sma_slow = NaN, rsi = NaN\<rparr>,
     \<lparr>close = Fin 9, sma_fast = Fin (19 / 2), sma_slow = NaN, rsi = Fin 0\<rparr>,
     \<lparr>close = Fin 8, sma_fast = Fin (17 / 2), sma_slow = Fin 9, rsi = Fin 0\<rparr>,
     \<lparr>close = Fin 12, sma_fast = Fin 10, sma_slow = Fin (29 / 3), rsi = Fin 80\<rparr>,
     \<lparr>close = Fin 13, sma_fast = Fin (25 / 2), sma_slow = Fin 11, rsi = Fin 100\<rparr>]"

definition demo_secondary :: "secondary_row list" where
  "demo_secondary =
    [\<lparr>close = Fin 10, sma_trend = NaN\<rparr>,
     \<lparr>close = Fin 8, sma_trend = Fin 9\<rparr>,
     \<lparr>close = Fin 13, sma_trend = Fin (21 / 2)\<rparr>]"

definition demo_bars :: "bar list" where
  "demo_bars = map (\<lambda>i. \<lparr>bar_primary = demo_primary, bar_secondary = demo_secondary,
      bar_primary_idx = i, bar_secondary_idx = 2, bar_price = Fin 12\<rparr>) [2, 3, 4, 4, 7]"

definition demo_bt :: "trade list" where
  "demo_bt = [\<lparr>timestamp = 0, side = ''BUY'', entry_price_col = Some (Fin 100)\<rparr>,
              \<lparr>timestamp = 600000000000, side = ''SELL'', entry_price_col = Some (Fin 100)\<rparr>,
              \<lparr>timestamp = 900000000000, side = ''BUY'', entry_price_col = Some (Fin 104)\<rparr>]"

definition demo_lv :: "trade list" where
  "demo_lv = [\<lparr>timestamp = 60000000000, side = ''BUY'', entry_price_col = Some (Fin 101)\<rparr>,
              \<lparr>timestamp = 120000000000, side = ''BUY'', entry_price_col = None\<rparr>,
              \<lparr>timestamp = 630000000000, side = ''SELL'', entry_price_col = Some (Fin 102)\<rparr>]"

section \<open>Properties of the signal state machine\<close>

lemma get_trend_direction_self: "snd (get_trend_direction self df i) = self"
  by (simp add: get_trend_direction_def Let_def)

lemma check_sma_crossover_self: "snd (check_sma_crossover self df i) = self"
  by (simp add: check_sma_crossover_def Let_def split: sum.splits)

lemma get_trend_direction_pair: "\<exists>t. get_trend_direction self df i = (t, self)"
  by (metis get_trend_direction_self prod.collapse)

lemma check_sma_crossover_pair: "\<exists>c. check_sma_crossover self df i = (c, self)"
  by (metis check_sma_crossover_self prod.collapse)

lemma iloc_in_range:
  "- int (length df) \<le> i \<Longrightarrow> i < int (length df) \<Longrightarrow> \<exists>row. iloc df i = Inr row"
  by (cases "0 \<le> i") (simp_all add: iloc_def)

lemma iloc_nonneg: "0 \<le> i \<Longrightarrow> i < int (length df) \<Longrightarrow> iloc df i = Inr (df ! nat i)"
  by (simp add: iloc_def)

lemma check_sma_crossover_returns:
  "- int (length df) \<le> i \<Longrightarrow> i < int (length df) \<Longrightarrow>
   \<exists>c. fst (check_sma_crossover self df i) = Inr c"
  by (auto simp add: check_sma_crossover_def iloc_def Let_def)

lemma generate_signal_past_guard:
  assumes "slow_sma self \<le> primary_idx" "trend_sma self \<le> secondary_idx"
    and "iloc df_primary primary_idx = Inr row"
    and "check_sma_crossover self df_primary primary_idx = (Inr crossover, self)"
    and "get_trend_direction self df_secondary secondary_idx = (trend, self)"
  shows "generate_signal self df_primary df_secondary primary_idx secondary_idx =
     (Inr (if position self = None then
            (if crossover = Some ''BULLISH'' \<or>
                (trend = Some ''UP'' \<and> flt (rsi row) (rsi_overbought self)) then BUY else HOLD)
          else if position self = Some ''LONG'' then
            (if crossover = Some ''BEARISH'' \<or> fgt (rsi row) (rsi_overbought self)
             then SELL else HOLD)
          else HOLD), self)"
  using assms by (simp add: generate_signal_def Let_def)

text \<open>
  C6: whenever the primary index is below \<open>slow_sma\<close> or the secondary index is below
  \<open>trend_sma\<close>, \<open>generate_signal\<close> returns HOLD and raises nothing, whatever the frames,
  the indices (in range or not) and the position are.
\<close>

theorem warmup_hold:
  "primary_idx < slow_sma self \<or> secondary_idx < trend_sma self \<Longrightarrow>
   fst (generate_signal self df_primary df_secondary primary_idx secondary_idx) = Inr HOLD"
  by (auto simp add: generate_signal_def)

theorem warmup_hold_witness:
  "(2 < slow_sma demo_strategy \<or> 2 < trend_sma demo_strategy) \<and>
   fst (generate_signal demo_strategy demo_primary demo_secondary 2 2) = Inr HOLD"
  using warmup_hold [of 2 demo_strategy 2 demo_primary demo_secondary]
  by (simp add: demo_strategy_def)

text \<open>
  C1: past the warm-up guard and with the primary index inside the frame,
  \<open>generate_signal\<close> returns a signal; it is BUY exactly when the position is flat
  (\<open>None\<close>) and the crossover is bullish or the trend is up with the RSI below
  \<open>rsi_overbought\<close>; it is SELL exactly when the position is \<open>'LONG'\<close> and the crossover
  is bearish or the RSI is above \<open>rsi_overbought\<close>; it is HOLD in every other case.
  Crossover and trend are what \<open>check_sma_crossover\<close> and \<open>get_trend_direction\<close>
  return, the RSI is the one of the row at the primary index.
\<close>

theorem generate_signal_rule:
  assumes "slow_sma self \<le> primary_idx" and "trend_sma self \<le> secondary_idx"
    and "- int (length df_primary) \<le> primary_idx" and "primary_idx < int (length df_primary)"
  shows "\<exists>row crossover trend sig.
      iloc df_primary primary_idx = Inr row \<and>
      fst (check_sma_crossover self df_primary primary_idx) = Inr crossover \<and>
      fst (get_trend_direction self df_secondary secondary_idx) = trend \<and>
      fst (generate_signal self df_primary df_secondary primary_idx secondary_idx) = Inr sig \<and>
      (sig = BUY \<longleftrightarrow> position self = None \<and>
         (crossover = Some ''BULLISH'' \<or>
          (trend = Some ''UP'' \<and> flt (rsi row) (rsi_overbought self)))) \<and>
      (sig = SELL \<longleftrightarrow> position self = Some ''LONG'' \<and>
         (crossover = Some ''BEARISH'' \<or> fgt (rsi row) (rsi_overbought self))) \<and>
      (sig = HOLD \<longleftrightarrow> sig \<noteq> BUY \<and> sig \<noteq> SELL)"
proof -
  obtain row where row: "iloc df_primary primary_idx = Inr row"
    using iloc_in_range [OF assms(3,4)] by blast
  obtain crossover where "fst (check_sma_crossover self df_primary primary_idx) = Inr crossover"
    using check_sma_crossover_returns [OF assms(3,4)] by blast
  then have c: "check_sma_crossover self df_primary primary_idx = (Inr crossover, self)"
    using check_sma_crossover_pair [of self df_primary primary_idx] by auto
  obtain trend where t: "get_trend_direction self df_secondary secondary_idx = (trend, self)"
    using get_trend_direction_pair by blast
  note g = generate_signal_past_guard [OF assms(1,2) row c t]
  show ?thesis
    using row c t g by auto
qed

theorem generate_signal_rule_witness:
  "slow_sma demo_strategy \<le> 3 \<and> trend_sma demo_strategy \<le> 2 \<and>
   - int (length demo_primary) \<le> 3 \<and> 3 < int (length demo_primary) \<and>
   fst (check_sma_crossover demo_strategy demo_primary 3) = Inr (Some ''BULLISH'') \<and>
   fst (generate_signal demo_strategy demo_primary demo_secondary 3 2) = Inr BUY"
  using generate_signal_rule [of demo_strategy 3 2 demo_primary demo_secondary]
  by (auto simp add: demo_strategy_def demo_primary_def check_sma_crossover_def iloc_def
        isna_def fgt_def)

text \<open>
  C9: \<open>generate_signal\<close> returns the strategy object as it received it, so \<open>position\<close>
  and \<open>entry_price\<close> are unchanged, for every state, frames and indices and also when
  it raises. \<open>update_position\<close> is the step that writes them: BUY sets \<open>'LONG'\<close> and the
  price, SELL clears both, HOLD writes nothing. (\<open>reset\<close> clears both as well; it is the
  start of a session, not a step of it.)
\<close>

theorem generate_signal_pure:
  "snd (generate_signal self df_primary df_secondary primary_idx secondary_idx) = self \<and>
   position (snd (generate_signal self df_primary df_secondary primary_idx secondary_idx))
     = position self \<and>
   entry_price (snd (generate_signal self df_primary df_secondary primary_idx secondary_idx))
     = entry_price self \<and>
   position (update_position self BUY price) = Some ''LONG'' \<and>
   entry_price (update_position self BUY price) = Some price \<and>
   position (update_position self SELL price) = None \<and>
   entry_price (update_position self SELL price) = None \<and>
   update_position self HOLD price = self"
proof -
  obtain c where c: "check_sma_crossover self df_primary primary_idx = (c, self)"
    using check_sma_crossover_pair by blast
  obtain t where t: "get_trend_direction self df_secondary secondary_idx = (t, self)"
    using get_trend_direction_pair by blast
  have "snd (generate_signal self df_primary df_secondary primary_idx secondary_idx) = self"
    by (simp add: generate_signal_def Let_def c t split: sum.splits)
  then show ?thesis
    by (simp add: update_position_def)
qed

text \<open>
  C7: when the fast average is at or below the slow one at bar \<open>i - 1\<close> and strictly
  above it at bar \<open>i\<close> (so both are defined at \<open>i\<close>), \<open>check_sma_crossover\<close> returns
  BULLISH at \<open>i\<close>, and at \<open>i + 1\<close> it returns something else. Bar \<open>i - 1\<close> exists, that
  is \<open>1 \<le> i\<close>, and bar \<open>i + 1\<close> is in the frame.
\<close>

theorem crossover_once:
  assumes "1 \<le> i" and "i + 1 < int (length df)"
    and "fle (sma_fast (df ! nat (i - 1))) (sma_slow (df ! nat (i - 1)))"
    and "fgt (sma_fast (df ! nat i)) (sma_slow (df ! nat i))"
  shows "fst (check_sma_crossover self df i) = Inr (Some ''BULLISH'') \<and>
         (\<exists>c. fst (check_sma_crossover self df (i + 1)) = Inr c \<and> c \<noteq> Some ''BULLISH'')"
proof -
  have cur: "iloc df i = Inr (df ! nat i)"
    and prev: "iloc df (i - 1) = Inr (df ! nat (i - 1))"
    and nxt: "iloc df (i + 1) = Inr (df ! nat (i + 1))"
    using assms(1,2) by (simp_all add: iloc_nonneg)
  have nn: "sma_fast (df ! nat i) \<noteq> NaN" "sma_slow (df ! nat i) \<noteq> NaN"
    using assms(4) by (auto simp add: fgt_def)
  have nle: "\<not> fle (sma_fast (df ! nat i)) (sma_slow (df ! nat i))"
    using assms(4)
    by (cases "sma_fast (df ! nat i)"; cases "sma_slow (df ! nat i)") (simp_all add: fgt_def)
  have a: "fst (check_sma_crossover self df i) = Inr (Some ''BULLISH'')"
    using assms(1,3,4) nn by (simp add: check_sma_crossover_def cur prev Let_def isna_def)
  have b: "\<exists>c. fst (check_sma_crossover self df (i + 1)) = Inr c \<and> c \<noteq> Some ''BULLISH''"
    using assms(1) nle by (simp add: check_sma_crossover_def cur nxt Let_def)
  show ?thesis using a b by simp
qed

theorem crossover_once_witness:
  "(1::int) \<le> 3 \<and> 3 + 1 < int (length demo_primary) \<and>
   fle (sma_fast (demo_primary ! nat (3 - 1))) (sma_slow (demo_primary ! nat (3 - 1))) \<and>
   fgt (sma_fast (demo_primary ! nat 3)) (sma_slow (demo_primary ! nat 3)) \<and>
   fst (check_sma_crossover demo_strategy demo_primary 3) = Inr (Some ''BULLISH'') \<and>
   fst (check_sma_crossover demo_strategy demo_primary 4) = Inr None"
  using crossover_once [of 3 demo_primary demo_strategy]
  by (auto simp add: demo_primary_def check_sma_crossover_def iloc_def isna_def fgt_def fge_def)

section \<open>Properties of the indicator engine\<close>




lemma diff_take: "diff (take n xs) = take n (diff xs)"
  by (rule nth_equalityI) (auto simp add: diff_def)

lemma diff_map_take: "diff (map f (take n xs)) = take n (diff (map f xs))"
  using diff_take [of n "map f xs"] by (simp add: take_map)

lemma series_where_take:
  "series_where (take n xs) (map g (take n xs)) other = take n (series_where xs (map g xs) other)"
  by (simp add: series_where_def take_map take_zip)

lemma window_take:
  assumes "k < n" "w \<le> Suc k"
  shows "take w (drop (Suc k - w) (take n xs)) = take w (drop (Suc k - w) xs)"
proof -
  have "drop (Suc k - w) (take n xs) = take (n - (Suc k - w)) (drop (Suc k - w) xs)"
    by (simp add: drop_take)
  moreover have "w \<le> n - (Suc k - w)" using assms by arith
  ultimately show ?thesis by (simp add: min_absorb1)
qed

lemma prefix_take: "k < n \<Longrightarrow> take (Suc k) (take n xs) = take (Suc k) xs"
  by (simp add: min_absorb1)

lemma rolling_mean_take:
  "rolling_mean mean64 w (take n xs) = map_sum id (take n) (rolling_mean mean64 w xs)"
proof (cases "w < 0")
  case True
  then show ?thesis by (simp add: rolling_mean_def)
next
  case False
  have "map (\<lambda>k. if 1 \<le> w \<and> nat w \<le> k + 1 \<and>
                      list_all is_finite (take (nat w) (drop (k + 1 - nat w) (take n xs)))
                   then mean64 (nat w) (take (k + 1) (take n xs)) else NaN)
            [0..<length (take n xs)]
        = take n (map (\<lambda>k. if 1 \<le> w \<and> nat w \<le> k + 1 \<and>
                      list_all is_finite (take (nat w) (drop (k + 1 - nat w) xs))
                   then mean64 (nat w) (take (k + 1) xs) else NaN)
            [0..<length xs])"
    by (rule nth_equalityI) (simp_all add: window_take prefix_take cong: conj_cong)
  with False show ?thesis by (simp add: rolling_mean_def)
qed

lemma rolling_mean_map_take:
  "rolling_mean mean64 w (map f (take n xs)) =
   map_sum id (take n) (rolling_mean mean64 w (map f xs))"
  using rolling_mean_take [of mean64 w n "map f xs"] by (simp add: take_map)

lemma gain_series_take:
  "gain_series mean64 w (take n delta) = map_sum id (take n) (gain_series mean64 w delta)"
  by (simp add: gain_series_def series_where_take rolling_mean_take)

lemma loss_series_take:
  "loss_series mean64 w (take n delta) = map_sum id (take n) (loss_series mean64 w delta)"
  by (simp add: loss_series_def series_where_take rolling_mean_map_take)

lemma calculate_indicators_self: "snd (calculate_indicators mean64 self p s) = self"
  by (simp add: calculate_indicators_def Let_def split: sum.splits)

lemma calculate_indicators_take:
  "fst (calculate_indicators mean64 self (take n p) (take m s)) =
   map_sum id (\<lambda>(dp, ds). (take n dp, take m ds)) (fst (calculate_indicators mean64 self p s))"
  by (simp add: calculate_indicators_def Let_def rolling_mean_map_take
       diff_map_take gain_series_take loss_series_take take_map take_zip split: sum.splits)

lemma rolling_mean_ok:
  "rolling_mean mean64 w xs = Inr ys \<Longrightarrow> 0 \<le> w \<and> length ys = length xs"
  by (auto simp add: rolling_mean_def split: if_splits)

lemma calculate_indicators_ok:
  "fst (calculate_indicators mean64 self p s) = Inr (dp, ds) \<Longrightarrow>
   0 \<le> fast_sma self \<and> 0 \<le> slow_sma self \<and> 0 \<le> rsi_period self \<and> 0 \<le> trend_sma self"
  by (auto simp add: calculate_indicators_def gain_series_def Let_def split: sum.splits
        dest: rolling_mean_ok)

lemma iloc_take:
  "0 \<le> i \<Longrightarrow> nat (i + 1) \<le> n \<Longrightarrow> iloc (take n df) i = iloc df i"
  by (auto simp add: iloc_def)

lemma check_sma_crossover_take:
  "nat (i + 1) \<le> n \<Longrightarrow> check_sma_crossover self (take n df) i = check_sma_crossover self df i"
proof (cases "i < 1")
  case True
  then show ?thesis by (simp add: check_sma_crossover_def)
next
  case False
  assume n: "nat (i + 1) \<le> n"
  from False n have "iloc (take n df) i = iloc df i" "iloc (take n df) (i - 1) = iloc df (i - 1)"
    by (simp_all add: iloc_take)
  then show ?thesis by (simp add: check_sma_crossover_def cong: sum.case_cong)
qed

lemma get_trend_direction_take:
  "nat (j + 1) \<le> m \<Longrightarrow> get_trend_direction self (take m df) j = get_trend_direction self df j"
  by (cases "j < 0") (auto simp add: get_trend_direction_def)

lemma generate_signal_take:
  assumes "0 \<le> i" "nat (i + 1) \<le> n" "nat (j + 1) \<le> m"
  shows "generate_signal self (take n dp) (take m ds) i j = generate_signal self dp ds i j"
proof -
  obtain c where c: "check_sma_crossover self dp i = (c, self)"
    by (metis check_sma_crossover_self prod.collapse)
  show ?thesis
    using assms
    by (simp add: generate_signal_def iloc_take check_sma_crossover_take c get_trend_direction_take
          cong: sum.case_cong)
qed

text \<open>
  C2: the signal at bar \<open>primary_idx\<close> does not look ahead. Computing the indicators on
  the primary frame cut after that bar (or after any later bar) and on the secondary frame
  cut after \<open>secondary_idx\<close> (or later), and then evaluating \<open>generate_signal\<close> at the
  two indices, gives the same result, signal or exception, as doing so on the full frames,
  for every state of the strategy and whatever the float64 arithmetic of the rolling mean
  gives. Taking \<open>m = length df_secondary\<close> leaves the secondary frame whole.
\<close>

theorem no_look_ahead:
  assumes "nat (primary_idx + 1) \<le> n" and "nat (secondary_idx + 1) \<le> m"
  shows "signal_at mean64 self (take n df_primary) (take m df_secondary) primary_idx secondary_idx =
         signal_at mean64 self df_primary df_secondary primary_idx secondary_idx"
proof (cases "fst (calculate_indicators mean64 self df_primary df_secondary)")
  case (Inl e)
  then have "fst (calculate_indicators mean64 self (take n df_primary) (take m df_secondary)) = Inl e"
    by (simp add: calculate_indicators_take)
  then have "calculate_indicators mean64 self (take n df_primary) (take m df_secondary) = (Inl e, self)"
    using calculate_indicators_self [of mean64 self "take n df_primary" "take m df_secondary"]
    by (simp add: prod_eq_iff)
  moreover have "calculate_indicators mean64 self df_primary df_secondary = (Inl e, self)"
    using Inl calculate_indicators_self [of mean64 self df_primary df_secondary]
    by (simp add: prod_eq_iff)
  ultimately show ?thesis
    by (simp add: signal_at_def)
next
  case (Inr r)
  obtain dp ds where r: "r = (dp, ds)" by (cases r)
  have full: "calculate_indicators mean64 self df_primary df_secondary = (Inr (dp, ds), self)"
    using Inr r calculate_indicators_self [of mean64 self df_primary df_secondary]
    by (simp add: prod_eq_iff)
  have "fst (calculate_indicators mean64 self (take n df_primary) (take m df_secondary)) =
        Inr (take n dp, take m ds)"
    using Inr r by (simp add: calculate_indicators_take)
  then have trunc: "calculate_indicators mean64 self (take n df_primary) (take m df_secondary) =
        (Inr (take n dp, take m ds), self)"
    using calculate_indicators_self [of mean64 self "take n df_primary" "take m df_secondary"]
    by (simp add: prod_eq_iff)
  have nonneg: "0 \<le> slow_sma self"
    using calculate_indicators_ok Inr r by blast
  show ?thesis
  proof (cases "primary_idx < slow_sma self \<or> secondary_idx < trend_sma self")
    case True
    then show ?thesis
      by (simp add: signal_at_def full trunc generate_signal_def)
  next
    case False
    with nonneg have "0 \<le> primary_idx" by simp
    then show ?thesis
      using assms by (simp add: signal_at_def full trunc generate_signal_take)
  qed
qed

lemma demo_signal_at: "signal_at float_mean demo_strategy demo_candles demo_candles2 3 2 = Inr BUY"
  by code_simp

theorem no_look_ahead_witness:
  "nat (3 + 1) \<le> (4::nat) \<and> nat (2 + 1) \<le> (3::nat) \<and>
   signal_at float_mean demo_strategy (take 4 demo_candles) (take 3 demo_candles2) 3 2 =
     signal_at float_mean demo_strategy demo_candles demo_candles2 3 2 \<and>
   signal_at float_mean demo_strategy (take 4 demo_candles) (take 3 demo_candles2) 3 2 = Inr BUY"
proof -
  have h1: "nat (3 + 1) \<le> (4::nat)" and h2: "nat (2 + 1) \<le> (3::nat)" by simp_all
  from no_look_ahead [OF h1 h2, of float_mean demo_strategy demo_candles demo_candles2] h1 h2
  show ?thesis by (simp add: demo_signal_at)
qed


lemma rolling_mean_total:
  "0 \<le> w \<Longrightarrow> \<exists>ys. rolling_mean mean64 w xs = Inr ys \<and> length ys = length xs"
  by (simp add: rolling_mean_def)

lemma series_lengths:
  "gain_series mean64 w delta = Inr gain \<Longrightarrow> length gain = length delta"
  "loss_series mean64 w delta = Inr loss \<Longrightarrow> length loss = length delta"
  by (auto simp add: gain_series_def loss_series_def series_where_def dest: rolling_mean_ok)

text \<open>
  The RSI stored at a bar is the formula of the source applied to the two averages at
  that bar.
\<close>

lemma rsi_at_formula:
  assumes "0 \<le> fast_sma self" "0 \<le> slow_sma self" "0 \<le> trend_sma self"
    and "gain_series mean64 (rsi_period self) (diff (map close p)) = Inr gain"
    and "loss_series mean64 (rsi_period self) (diff (map close p)) = Inr loss"
    and "i < length p"
  shows "rsi_at mean64 self p s (int i) =
           Inr (fsub (Fin 100) (fdiv (Fin 100) (fadd (Fin 1) (fdiv (gain ! i) (loss ! i)))))"
proof -
  let ?closes = "map close p"
  have ld: "length (diff ?closes) = length p" by (simp add: diff_def)
  have lg: "length gain = length p" and ll: "length loss = length p"
    using series_lengths(1) [OF assms(4)] series_lengths(2) [OF assms(5)] ld by simp_all
  obtain cf where cf: "rolling_mean mean64 (fast_sma self) ?closes = Inr cf" "length cf = length p"
    using rolling_mean_total [OF assms(1), of mean64 ?closes] by auto
  obtain cs where cs: "rolling_mean mean64 (slow_sma self) ?closes = Inr cs" "length cs = length p"
    using rolling_mean_total [OF assms(2), of mean64 ?closes] by auto
  obtain ct where ct: "rolling_mean mean64 (trend_sma self) (map close s) = Inr ct"
    using rolling_mean_total [OF assms(3), of mean64 "map close s"] by auto
  show ?thesis
    using assms(4,5,6) cf cs ct lg ll
    by (simp add: rsi_at_def calculate_indicators_def Let_def iloc_def)
qed

text \<open>
  The formula at an infinite quotient of either sign is 100 (a division by a zero of
  negative sign gives the negative infinity).
\<close>

lemma rsi_formula_infinite:
  "r = PosInf \<or> r = NegInf \<Longrightarrow>
   fsub (Fin 100) (fdiv (Fin 100) (fadd (Fin 1) r)) = Fin 100"
  by (auto simp add: fsub_def)

lemma fdiv_positive_by_zero: "fgt g (Fin 0) \<Longrightarrow> fdiv g (Fin 0) = PosInf"
  by (cases g) (simp_all add: fgt_def)

subsection \<open>Rounding below the normal range\<close>

lemma scan_down_below:
  "0 \<le> a \<Longrightarrow> a < p / 2 ^ n \<Longrightarrow> scan_down n e p a = e - int n"
proof (induction n arbitrary: e p)
  case 0
  then show ?case by simp
next
  case (Suc n)
  from Suc.prems have "0 < p / 2 ^ Suc n" by simp
  then have pos: "0 < p" by (simp add: zero_less_divide_iff)
  have "(1::real) \<le> 2 ^ Suc n" by (rule one_le_power) simp
  then have "p / 2 ^ Suc n \<le> p / 1" using pos by (intro divide_left_mono) simp_all
  with Suc.prems have np: "\<not> p \<le> a" by simp
  have "a < (p / 2) / 2 ^ n" using Suc.prems(2) by simp
  from Suc.IH [OF Suc.prems(1) this, of "e - 1"] np show ?case by simp
qed

lemma min_subnormal_pos: "0 < min_subnormal"
  by (simp add: min_subnormal_def)

lemma below_normal: "\<bar>x\<bar> \<le> min_subnormal \<Longrightarrow> \<bar>x\<bar> < (1 / 2) / 2 ^ 1021"
proof -
  assume a: "\<bar>x\<bar> \<le> min_subnormal"
  have "(2::real) ^ 1022 < 2 ^ 1074" by (rule power_strict_increasing) simp_all
  then have "1 / (2::real) ^ 1074 < 1 / 2 ^ 1022" by (simp add: frac_less2)
  moreover have "(1 / 2) / (2::real) ^ 1021 = 1 / 2 ^ Suc 1021" by simp
  ultimately show ?thesis using a by (simp add: min_subnormal_def)
qed

lemma round64_subnormal:
  assumes "x \<noteq> 0" and "\<bar>x\<bar> \<le> min_subnormal"
  shows "round64 x = Fin (of_int (round_half_even (x / min_subnormal)) * min_subnormal)"
proof -
  have "(1::real) \<le> 2 ^ 1021" by (rule one_le_power) simp
  then have "(1 / 2) / (2::real) ^ 1021 \<le> 1 / 2" by (simp add: divide_le_eq)
  then have lt1: "\<not> 1 \<le> \<bar>x\<bar>"
    using below_normal [OF assms(2)] by simp
  have "scan_down 1021 (- 1) (1 / 2) \<bar>x\<bar> = - 1 - int 1021"
    using below_normal [OF assms(2)] by (intro scan_down_below) simp_all
  then have b: "binade \<bar>x\<bar> = - 1022" using lt1 by (simp add: binade_def)
  have e: "(- 1022 - 52 :: int) = - 1074" by simp
  have p: "(2::real) powi (- 1074) = min_subnormal"
    by (simp add: min_subnormal_def power_int_minus field_simps)
  have c: "(- 1022 :: int) < 1023" by simp
  show ?thesis
    unfolding round64_def b Let_def e p using assms(1) c by (simp only: if_False if_True)
qed

lemma round64_min_subnormal: "round64 min_subnormal = Fin min_subnormal"
  using round64_subnormal [of min_subnormal] min_subnormal_pos
  by (simp add: round_half_even_def)

lemma round64_half_min_subnormal: "round64 (min_subnormal / 2) = Fin 0"
  using round64_subnormal [of "min_subnormal / 2"] min_subnormal_pos
  by (simp add: round_half_even_def)

lemma round64_zero: "round64 0 = Fin 0"
  by (simp add: round64_def)

subsection \<open>The RSI of an all-gain window\<close>

lemma tiny_diff: "diff (map close tiny_candles) = [NaN, Fin 0, Fin min_subnormal]"
  by (simp add: diff_def tiny_candles_def fsub_def)

lemma tiny_gain:
  "gain_series float_mean 2 [NaN, Fin 0, Fin min_subnormal] = Inr [NaN, Fin 0, Fin 0]"
  using min_subnormal_pos
  by (simp add: gain_series_def series_where_def rolling_mean_def fgt_def float_mean_def
        fl_def round64_zero round64_min_subnormal round64_half_min_subnormal)

lemma tiny_loss:
  "loss_series float_mean 2 [NaN, Fin 0, Fin min_subnormal] = Inr [NaN, Fin 0, Fin 0]"
  using min_subnormal_pos
  by (simp add: loss_series_def series_where_def rolling_mean_def float_mean_def
        fl_def round64_zero)

text \<open>
  C3, as the claim states it, fails. The closes 0, 0 and the smallest positive float64
  give, with a window of two bars, the deltas 0 and that number at the last bar: none is
  negative and one is positive. Their mean is half the smallest float64, which rounds to
  0; the average loss is 0 as well, and the RSI of the bar is 0 / 0, that is NaN.
\<close>

theorem rsi_underflow_nan:
  "diff (map close tiny_candles) = [NaN, Fin 0, Fin min_subnormal] \<and> 0 < min_subnormal \<and>
   rsi_at float_mean demo_strategy tiny_candles demo_candles2 2 = Inr NaN"
proof -
  have p: "0 \<le> fast_sma demo_strategy" "0 \<le> slow_sma demo_strategy"
    "0 \<le> trend_sma demo_strategy"
    by (simp_all add: demo_strategy_def)
  have w: "rsi_period demo_strategy = 2" by (simp add: demo_strategy_def)
  have g: "gain_series float_mean (rsi_period demo_strategy) (diff (map close tiny_candles))
             = Inr [NaN, Fin 0, Fin 0]"
    by (simp only: w tiny_diff tiny_gain)
  have l: "loss_series float_mean (rsi_period demo_strategy) (diff (map close tiny_candles))
             = Inr [NaN, Fin 0, Fin 0]"
    by (simp only: w tiny_diff tiny_loss)
  have n: "2 < length tiny_candles" by (simp add: tiny_candles_def)
  from rsi_at_formula [OF p g l n, of demo_candles2]
  have "rsi_at float_mean demo_strategy tiny_candles demo_candles2 2 = Inr NaN"
    by (simp add: fsub_def)
  then show ?thesis using tiny_diff min_subnormal_pos by simp
qed

text \<open>
  C3, amended: at a bar where the average loss that the rolling mean computes is 0 and
  the average gain it computes is above 0 (a positive number or infinity),
  \<open>calculate_indicators\<close> raises nothing and the RSI it stores is exactly 100, not NaN,
  whatever the float64 arithmetic of the rolling mean is. The periods of the moving
  averages are not negative, so that the indicators are computed at all.
\<close>

theorem rsi_saturates:
  assumes "0 \<le> fast_sma self" and "0 \<le> slow_sma self" and "0 \<le> trend_sma self"
    and "gain_series mean64 (rsi_period self) (diff (map close df_primary)) = Inr gain"
    and "loss_series mean64 (rsi_period self) (diff (map close df_primary)) = Inr loss"
    and "i < length df_primary"
    and "fgt (gain ! i) (Fin 0)" and "loss ! i = Fin 0"
  shows "rsi_at mean64 self df_primary df_secondary (int i) = Inr (Fin 100)"
proof -
  have "fdiv (gain ! i) (loss ! i) = PosInf"
    using assms(7,8) by (simp add: fdiv_positive_by_zero)
  then have "fsub (Fin 100) (fdiv (Fin 100) (fadd (Fin 1) (fdiv (gain ! i) (loss ! i)))) = Fin 100"
    by (intro rsi_formula_infinite) simp
  with rsi_at_formula [OF assms(1-6), of df_secondary] show ?thesis by simp
qed

lemma demo_gain:
  "gain_series float_mean (rsi_period demo_strategy) (diff (map close demo_candles)) =
     Inr [NaN, Fin 0, Fin 0, Fin 2, Fin (5 / 2)]"
  by code_simp

lemma demo_loss:
  "loss_series float_mean (rsi_period demo_strategy) (diff (map close demo_candles)) =
     Inr [NaN, Fin (1 / 2), Fin 1, Fin (1 / 2), Fin 0]"
  by code_simp

theorem rsi_saturates_witness:
  "gain_series float_mean (rsi_period demo_strategy) (diff (map close demo_candles)) =
     Inr [NaN, Fin 0, Fin 0, Fin 2, Fin (5 / 2)] \<and>
   loss_series float_mean (rsi_period demo_strategy) (diff (map close demo_candles)) =
     Inr [NaN, Fin (1 / 2), Fin 1, Fin (1 / 2), Fin 0] \<and>
   fgt ([NaN, Fin 0, Fin 0, Fin 2, Fin (5 / 2)] ! 4) (Fin 0) \<and>
   [NaN, Fin (1 / 2), Fin 1, Fin (1 / 2), Fin 0] ! 4 = Fin 0 \<and>
   rsi_at float_mean demo_strategy demo_candles demo_candles2 4 = Inr (Fin 100)"
proof -
  have p: "0 \<le> fast_sma demo_strategy" "0 \<le> slow_sma demo_strategy"
    "0 \<le> trend_sma demo_strategy"
    by (simp_all add: demo_strategy_def)
  have n: "4 < length demo_candles" by (simp add: demo_candles_def)
  have g: "fgt ([NaN, Fin 0, Fin 0, Fin 2, Fin (5 / 2)] ! 4) (Fin 0)" by (simp add: fgt_def)
  have l: "[NaN, Fin (1 / 2), Fin 1, Fin (1 / 2), Fin 0] ! 4 = Fin 0" by simp
  from rsi_saturates [OF p demo_gain demo_loss n g l, of demo_candles2] demo_gain demo_loss g l
  show ?thesis by simp
qed
section \<open>Properties of the trade validator\<close>


lemma scan_live_inv:
  assumes "scan_live self bt lvs (res, used) = ((res', used'), found)"
    and "finite used"
  shows "finite used' \<and>
    unmatched_backtest res' = unmatched_backtest res \<and>
    (if found then matched_trades res' = matched_trades res + 1 \<and> card used' = card used + 1
                   \<and> (\<exists>k\<in>fst ` set lvs. k \<notin> used \<and> used' = insert k used)
     else res' = res \<and> used' = used)"
  using assms
proof (induction lvs)
  case Nil
  then show ?case by auto
next
  case (Cons a lvs)
  obtain k lv where a: "a = (k, lv)" by (cases a)
  show ?case using Cons a by (auto split: if_splits)
qed

lemma match_backtest_inv:
  assumes "match_backtest self lvs bts (res, used) = (res', used')"
    and "finite used" and "0 \<le> unmatched_backtest res"
  shows "finite used' \<and>
    matched_trades res' + unmatched_backtest res' =
      matched_trades res + unmatched_backtest res + int (length bts) \<and>
    int (card used') = int (card used) + (matched_trades res' - matched_trades res) \<and>
    0 \<le> unmatched_backtest res' \<and>
    used' \<subseteq> used \<union> fst ` set lvs"
  using assms
proof (induction bts arbitrary: res used)
  case Nil
  then show ?case by simp
next
  case (Cons bt bts)
  obtain r1 u1 found where sc: "scan_live self bt lvs (res, used) = ((r1, u1), found)"
    by (metis prod.collapse)
  note inv = scan_live_inv [OF sc Cons.prems(2)]
  show ?case
  proof (cases found)
    case True
    with sc Cons.prems(1) have rest: "match_backtest self lvs bts (r1, u1) = (res', used')"
      by simp
    from inv True have f1: "finite u1" and ub: "0 \<le> unmatched_backtest r1"
      using Cons.prems(3) by simp_all
    from Cons.IH [OF rest f1 ub] inv True show ?thesis by auto
  next
    case False
    let ?r2 = "r1\<lparr>unmatched_backtest := unmatched_backtest r1 + 1,
                 details := details r1 @
                   [UNMATCHED_BACKTEST (side bt) (timestamp bt) (entry_price_col bt)]\<rparr>"
    from False sc Cons.prems(1) have rest: "match_backtest self lvs bts (?r2, u1) = (res', used')"
      by simp
    from inv False have f1: "finite u1" and ub: "0 \<le> unmatched_backtest ?r2"
      using Cons.prems(2,3) by simp_all
    from Cons.IH [OF rest f1 ub] inv False show ?thesis by auto
  qed
qed

lemma iterrows_labels: "fst ` set (iterrows df) = {0..<length df}"
proof -
  have "map fst (zip [0..<length df] df) = [0..<length df]"
    by (simp add: map_fst_zip)
  then have "set (map fst (zip [0..<length df] df)) = set [0..<length df]"
    by (rule arg_cong)
  then show ?thesis
    unfolding iterrows_def set_map set_upt .
qed

text \<open>
  C10: \<open>compare_trades\<close> conserves counts. The matched and the unmatched backtest
  records add up to the backtest ledger, the matched and the unmatched live records to
  the live ledger, and no count is negative. The set \<open>used_live\<close> at the end of the loop
  holds as many live rows as there are matches and only rows of the live ledger: every
  match took a live row that no earlier match had taken.
\<close>

theorem compare_trades_conserves:
  "matched_trades (compare_trades self df_bt df_lv) +
     unmatched_backtest (compare_trades self df_bt df_lv) = int (length df_bt) \<and>
   matched_trades (compare_trades self df_bt df_lv) +
     unmatched_live (compare_trades self df_bt df_lv) = int (length df_lv) \<and>
   0 \<le> unmatched_backtest (compare_trades self df_bt df_lv) \<and>
   0 \<le> unmatched_live (compare_trades self df_bt df_lv) \<and>
   int (card (snd (compare_trades_loop self df_bt df_lv))) =
     matched_trades (compare_trades self df_bt df_lv) \<and>
   snd (compare_trades_loop self df_bt df_lv) \<subseteq> {0..<length df_lv}"
proof -
  obtain res used where l: "compare_trades_loop self df_bt df_lv = (res, used)"
    by (metis prod.collapse)
  let ?r0 = "\<lparr>backtest_trades = int (length df_bt), live_trades = int (length df_lv),
         matched_trades = 0, unmatched_backtest = 0, unmatched_live = 0, details = []\<rparr>"
  have m: "match_backtest self (iterrows df_lv) df_bt (?r0, {}) = (res, used)"
    using l by (simp add: compare_trades_loop_def)
  have inv: "finite used \<and>
    matched_trades res + unmatched_backtest res = int (length df_bt) \<and>
    int (card used) = matched_trades res \<and> 0 \<le> unmatched_backtest res \<and>
    used \<subseteq> {0..<length df_lv}"
    using match_backtest_inv [OF m] by (simp add: iterrows_labels)
  then have "card used \<le> card {0..<length df_lv}"
    by (intro card_mono) simp_all
  then have c: "int (card used) \<le> int (length df_lv)" by simp
  show ?thesis
    using inv c by (simp add: compare_trades_def l)
qed

theorem compare_trades_conserves_witness:
  "matched_trades (compare_trades (TradeValidator 180 (Fin (1 / 20))) demo_bt demo_lv) = 2 \<and>
   unmatched_backtest (compare_trades (TradeValidator 180 (Fin (1 / 20))) demo_bt demo_lv) = 1 \<and>
   unmatched_live (compare_trades (TradeValidator 180 (Fin (1 / 20))) demo_bt demo_lv) = 1 \<and>
   snd (compare_trades_loop (TradeValidator 180 (Fin (1 / 20))) demo_bt demo_lv) \<subseteq> {0..<3}"
proof -
  have m: "matched_trades (compare_trades (TradeValidator 180 (Fin (1 / 20))) demo_bt demo_lv) = 2"
    by code_simp
  have n: "length demo_bt = 3" "length demo_lv = 3"
    by (simp_all add: demo_bt_def demo_lv_def)
  from compare_trades_conserves [of "TradeValidator 180 (Fin (1 / 20))" demo_bt demo_lv] m n
  show ?thesis by simp
qed

text \<open>
  C4: for two ledgers of one BUY record each, \<open>compare_trades\<close> reports one match and
  nothing unmatched when the two timestamps differ by at most the window, and no match,
  one unmatched backtest record and one unmatched live record when they differ by more.
\<close>

theorem single_buy_match:
  "(let r = compare_trades self
              [\<lparr>timestamp = t1, side = ''BUY'', entry_price_col = p1\<rparr>]
              [\<lparr>timestamp = t2, side = ''BUY'', entry_price_col = p2\<rparr>]
    in (matched_trades r, unmatched_backtest r, unmatched_live r)) =
   (if \<bar>t2 - t1\<bar> \<le> candle_window self then (1, 0, 0) else (0, 1, 1))"
  by (simp add: compare_trades_def compare_trades_loop_def iterrows_def Let_def)

theorem single_buy_match_witness:
  "(let r = compare_trades (TradeValidator 180 (Fin (1 / 20)))
              [\<lparr>timestamp = 0, side = ''BUY'', entry_price_col = None\<rparr>]
              [\<lparr>timestamp = 180000000000, side = ''BUY'', entry_price_col = None\<rparr>]
    in (matched_trades r, unmatched_backtest r, unmatched_live r)) = (1, 0, 0) \<and>
   (let r = compare_trades (TradeValidator 180 (Fin (1 / 20)))
              [\<lparr>timestamp = 0, side = ''BUY'', entry_price_col = None\<rparr>]
              [\<lparr>timestamp = 180000000001, side = ''BUY'', entry_price_col = None\<rparr>]
    in (matched_trades r, unmatched_backtest r, unmatched_live r)) = (0, 1, 1)"
  using single_buy_match [of "TradeValidator 180 (Fin (1 / 20))" 0 None 180000000000 None]
    single_buy_match [of "TradeValidator 180 (Fin (1 / 20))" 0 None 180000000001 None]
  by (simp add: TradeValidator_def)

section \<open>Properties of a session\<close>

lemma generate_signal_outcome:
  "\<exists>r. generate_signal self dp ds i j = (r, self) \<and>
       (r = Inr BUY \<longrightarrow> position self = None) \<and>
       (r = Inr SELL \<longrightarrow> position self = Some ''LONG'')"
proof -
  obtain c where c: "check_sma_crossover self dp i = (c, self)"
    using check_sma_crossover_pair by blast
  obtain t where t: "get_trend_direction self ds j = (t, self)"
    using get_trend_direction_pair by blast
  show ?thesis
    by (auto simp add: generate_signal_def Let_def c t split: sum.splits)
qed

lemma run_session_inv:
  "alternates (position self \<noteq> None) (map snd (run_session self bars)) \<and>
   (\<forall>(pos, sig)\<in>set (run_session self bars).
      (sig = SELL \<longrightarrow> pos = Some ''LONG'') \<and> (sig = BUY \<longrightarrow> pos = None))"
proof (induction bars arbitrary: self)
  case Nil
  show ?case by simp
next
  case (Cons b bars)
  obtain r where r:
    "generate_signal self (bar_primary b) (bar_secondary b) (bar_primary_idx b)
       (bar_secondary_idx b) = (r, self)"
    "r = Inr BUY \<longrightarrow> position self = None"
    "r = Inr SELL \<longrightarrow> position self = Some ''LONG''"
    using generate_signal_outcome by blast
  show ?case
  proof (cases r)
    case (Inl e)
    with r(1) Cons.IH [of self] show ?thesis by simp
  next
    case (Inr sig)
    note ih = Cons.IH [of "update_position self sig (bar_price b)"]
    show ?thesis
    proof (cases sig)
      case BUY
      with Inr r ih show ?thesis by (simp add: update_position_def)
    next
      case SELL
      with Inr r ih show ?thesis by (simp add: update_position_def)
    next
      case HOLD
      with Inr r ih show ?thesis by (simp add: update_position_def)
    qed
  qed
qed

text \<open>
  C5: in a session that starts flat and applies each signal with \<open>update_position\<close>
  before the next evaluation, whatever the bars are, the signals come well ordered: no
  BUY while a BUY is not yet closed by a SELL, and every SELL is emitted in position
  \<open>'LONG'\<close>, never while flat.
\<close>

theorem position_invariant:
  assumes "position self = None"
  shows "alternates False (map snd (run_session self bars)) \<and>
         (\<forall>(pos, sig)\<in>set (run_session self bars). sig = SELL \<longrightarrow> pos \<noteq> None)"
proof -
  have "alternates (position self \<noteq> None) (map snd (run_session self bars))"
    using run_session_inv [of self bars] by simp
  moreover have "\<forall>(pos, sig)\<in>set (run_session self bars). sig = SELL \<longrightarrow> pos \<noteq> None"
    using run_session_inv [of self bars] by fastforce
  ultimately show ?thesis using assms by simp
qed

lemma demo_session:
  "run_session demo_strategy demo_bars =
     [(None, HOLD), (None, BUY), (Some ''LONG'', SELL), (None, HOLD)]"
  by code_simp

theorem position_invariant_witness:
  "position demo_strategy = None \<and>
   map snd (run_session demo_strategy demo_bars) = [HOLD, BUY, SELL, HOLD] \<and>
   alternates False (map snd (run_session demo_strategy demo_bars))"
proof -
  have p: "position demo_strategy = None" by (simp add: demo_strategy_def)
  from position_invariant [OF p, of demo_bars] p show ?thesis
    by (simp add: demo_session)
qed

section \<open>Properties of the configuration\<close>

text \<open>
  C8, as the claim states it, fails: a primary timeframe with an unknown unit does not
  stop the engine, which is built with a check interval of 60 seconds.
\<close>

theorem unknown_unit_not_rejected:
  "LiveTradingEngine ''BTCUSDT'' ''5x'' ''1h'' (Fin 1) =
     Inr \<lparr>symbol = ''BTCUSDT'', primary_tf = ''5x'', secondary_tf = ''1h'', quantity = Fin 1,
          check_interval = 60, is_running = False\<rparr>"
  by (simp add: LiveTradingEngine_def parse_timeframe_to_seconds_def endswith_def)

text \<open>
  C8, amended: for a timeframe whose last character is none of \<open>m\<close>, \<open>h\<close>, \<open>d\<close>,
  \<open>_parse_timeframe_to_seconds\<close> raises nothing and returns the default of 60 seconds,
  and the engine is constructed with that check interval. A LIMIT order without a price
  is refused by \<open>create_order\<close> with ValueError, when the order is requested and before
  anything is sent to the exchange.
\<close>

theorem unknown_unit_default:
  assumes "\<not> endswith timeframe ''m''" and "\<not> endswith timeframe ''h''"
    and "\<not> endswith timeframe ''d''"
  shows "parse_timeframe_to_seconds timeframe = Inr 60 \<and>
         (\<exists>eng. LiveTradingEngine symb timeframe secondary_timeframe qty = Inr eng \<and>
                check_interval eng = 60) \<and>
         create_order send now symb order_side ''LIMIT'' qty None time_in_force = Inl ValueError"
  using assms
  by (simp add: parse_timeframe_to_seconds_def LiveTradingEngine_def create_order_def)

theorem unknown_unit_default_witness:
  "\<not> endswith ''5x'' ''m'' \<and> \<not> endswith ''5x'' ''h'' \<and> \<not> endswith ''5x'' ''d'' \<and>
   parse_timeframe_to_seconds ''5x'' = Inr 60 \<and>
   create_order (\<lambda>p. Inr p) 0 ''BTCUSDT'' ''BUY'' ''LIMIT'' (Fin 1) None ''GTC''
     = Inl ValueError"
proof -
  have h: "\<not> endswith ''5x'' ''m''" "\<not> endswith ''5x'' ''h''" "\<not> endswith ''5x'' ''d''"
    by (simp_all add: endswith_def)
  from unknown_unit_default [OF h, of "''BTCUSDT''" "''1h''" "Fin 1" "\<lambda>p. Inr p" 0 "''BUY''" "''GTC''"] h
  show ?thesis by simp
qed

end
